theory Spec2Isabelle
  imports Complex_Main "HOL-Library.Multiset" "HOL-Library.Char_ord" "HOL-Library.List_Lexorder"
begin

section \<open>Data model\<close>

text \<open>
  The program is a React/Firestore point of sale. Its values are JavaScript numbers and
  strings. Numbers are modelled as exact rationals: sums and products are the
  mathematical ones, as they are in the program for integers below \<open>2^53\<close>; NaN and the
  infinities are left out. Strings are lists of code units below 256.

  \<^verbatim>\<open>type Product = { code; name; cost; margin; stock; lowThreshold? }\<close>
  \<^verbatim>\<open>type SaleItem = { code; name; qty; price; costAtSale? }\<close>
  \<^verbatim>\<open>type Sale = { id; at; items; total; user?; localDate? }\<close>
  The two record types share the field names \<open>code\<close> and \<open>name\<close> in the source; the
  product's are written \<open>pcode\<close> and \<open>pname\<close> here. The sale's \<open>id\<close> and \<open>at\<close> are
  written \<open>sid\<close> and \<open>sale_at\<close>.
\<close>

record Product =
  pcode :: string
  pname :: string
  cost :: rat
  margin :: rat
  stock :: rat
  lowThreshold :: "rat option"

record SaleItem =
  code :: string
  name :: string
  qty :: rat
  price :: rat
  costAtSale :: "rat option"

record Sale =
  sid :: string
  sale_at :: string
  items :: "SaleItem list"
  total :: rat
  user :: "string option"
  localDate :: "string option"

text \<open>An entry of \<open>undoStack\<close>: \<^verbatim>\<open>{ type: "add", code, qty }\<close>.\<close>

record UndoEntry =
  utype :: string
  ucode :: string
  uqty :: rat

text \<open>The state of one \<open>POSTab\<close>: \<^verbatim>\<open>useState\<close> cells \<open>cart\<close> and \<open>undoStack\<close>.\<close>

record POS =
  cart :: "SaleItem list"
  undoStack :: "UndoEntry list"

text \<open>
  The messages the code hands to \<^verbatim>\<open>toast.error\<close> or throws, as values:
  "Codigo no encontrado", "Stock insuficiente de <name>", "Producto no encontrado: <code>",
  "No hay productos".
\<close>

datatype error =
  UnknownProduct
  | InsufficientStock string
  | ProductNotFound string
  | EmptyCart

section \<open>Utilities\<close>

text \<open>\<^verbatim>\<open>Math.round\<close>: the nearest integer, a half rounded towards plus infinity.\<close>

definition Math_round :: "rat \<Rightarrow> rat" where
  "Math_round x = of_int \<lfloor>x + 1 / 2\<rfloor>"

text \<open>\<^verbatim>\<open>x || 0\<close> on a number that may be undefined.\<close>

definition orZero :: "rat option \<Rightarrow> rat" where
  "orZero v = (case v of None \<Rightarrow> 0 | Some x \<Rightarrow> (if x = 0 then 0 else x))"




text \<open>\<^verbatim>\<open>Array.prototype.findIndex\<close>; \<open>None\<close> stands for \<open>-1\<close>.\<close>

fun findIndex :: "('a \<Rightarrow> bool) \<Rightarrow> 'a list \<Rightarrow> nat option" where
  "findIndex P [] = None"
| "findIndex P (x # xs) = (if P x then Some 0 else map_option Suc (findIndex P xs))"

section \<open>The cart (\<open>POSTab\<close>)\<close>

text \<open>
  \<^verbatim>\<open>const productsMap = useMemo(() => new Map(products.map(p => [p.code, p])), [products]);\<close>
  A later entry with the same key replaces an earlier one.
\<close>

definition productsMap :: "Product list \<Rightarrow> string \<rightharpoonup> Product" where
  "productsMap products = map_of (rev (map (\<lambda>p. (pcode p, p)) products))"





text \<open>\<^verbatim>\<open>Math.max(1, Number(qty || 1))\<close>\<close>

definition clampQty :: "rat \<Rightarrow> rat" where
  "clampQty v = max 1 (if v = 0 then 1 else v)"

text \<open>
  \<^verbatim>\<open>const changeQty = (code: string, qty: number) => {
    const prod = productsMap.get(code);
    if (!prod) return;
    const q = Math.max(1, Number(qty||1));
    if (q > (prod.stock || 0)) { toast.error(...); return; }
    setCart((prev) => prev.map((i) => (i.code === code ? { ...i, qty: q } : i))); };\<close>
  The return on an unknown code shows no message.
\<close>

definition changeQty :: "Product list \<Rightarrow> string \<Rightarrow> rat \<Rightarrow> POS \<Rightarrow> POS \<times> error option" where
  "changeQty products c v st =
     (case productsMap products c of
        None \<Rightarrow> (st, None)
      | Some prd \<Rightarrow>
          let q = clampQty v in
          if q > orZero (Some (stock prd)) then (st, Some (InsufficientStock (pname prd)))
          else (st\<lparr>cart := map (\<lambda>i. if code i = c then i\<lparr>qty := q\<rparr> else i) (cart st)\<rparr>, None))"



text \<open>\<^verbatim>\<open>const removeItem = (code) => { setCart((prev) => prev.filter((i) => i.code !== code)); };\<close>\<close>

definition removeItem :: "string \<Rightarrow> POS \<Rightarrow> POS" where
  "removeItem c st = st\<lparr>cart := filter (\<lambda>i. code i \<noteq> c) (cart st)\<rparr>"




text \<open>
  The bread dialog (\<open>PanModal\<close>) and the \<open>onAdd\<close> that \<open>POSTab\<close> gives it:
  \<^verbatim>\<open>onAdd={(precioFinal)=> {
    setCart(prev => [{ code:"PAN", name:"Pan", price: precioFinal, qty: 1 }, ...prev]); }}\<close>
  \<^verbatim>\<open>const confirmar = () => {
    if (mode === "precio") { const p = parseNumberOrZero(precio); if (p > 0) onAdd(p); }
    else { const g = parseNumberOrZero(gramos);
           if (g > 0) onAdd(Math.round((g / 1000) * pricePerKg)); }
    onClose(); };\<close>
  \<open>p\<close> and \<open>g\<close> are the numbers parsed from the two fields.
\<close>

definition onAdd :: "rat \<Rightarrow> POS \<Rightarrow> POS" where
  "onAdd precioFinal st =
     st\<lparr>cart := \<lparr>code = ''PAN'', name = ''Pan'', qty = 1, price = precioFinal,
                  costAtSale = None\<rparr> # cart st\<rparr>"



text \<open>\<^verbatim>\<open>const total = useMemo(() => cart.reduce((acc, i) => acc + i.price * i.qty, 0), [cart]);\<close>\<close>

definition cartTotal :: "SaleItem list \<Rightarrow> rat" where
  "cartTotal crt = foldl (\<lambda>acc i. acc + price i * qty i) 0 crt"

section \<open>Checkout (\<open>cobrar\<close>)\<close>

text \<open>
  What \<open>cobrar\<close> reads from its surroundings: the identifier Firestore gives the new sale
  document, \<^verbatim>\<open>serverTimestamp()\<close>, \<^verbatim>\<open>crypto.randomUUID()\<close>,
  \<^verbatim>\<open>new Date().toISOString()\<close>, \<^verbatim>\<open>todayLocalDateAR()\<close> and
  \<^verbatim>\<open>auth.currentUser?.email\<close>.
\<close>

record Env =
  newDocId :: string
  serverTimestamp :: string
  randomUUID :: string
  nowISO :: string
  todayLocalDateAR :: string
  currentUserEmail :: "string option"

text \<open>The Firestore collections \<open>products\<close> (keyed by code) and \<open>sales\<close>.\<close>

record Store =
  db_products :: "string \<rightharpoonup> Product"
  db_sales :: "Sale list"

text \<open>
  A transaction buffers its writes and applies them together when its function returns:
  \<^verbatim>\<open>tx.update(ref, { stock: v })\<close> on \<open>products/c\<close> and \<^verbatim>\<open>tx.set(saleRef, doc)\<close> on a new
  document of \<open>sales\<close>.
\<close>

datatype txWrite = Update string rat | SetSale Sale

text \<open>
  An update of a document that does not exist never occurs here (\<open>cobrar\<close> updates only
  documents it has read and found); the map is then left as it is.
\<close>

definition applyWrite :: "Store \<Rightarrow> txWrite \<Rightarrow> Store" where
  "applyWrite s w =
     (case w of
        Update c v \<Rightarrow>
          (case db_products s c of
             Some p \<Rightarrow> s\<lparr>db_products := (db_products s)(c \<mapsto> p\<lparr>stock := v\<rparr>)\<rparr>
           | None \<Rightarrow> s)
      | SetSale sale \<Rightarrow> s\<lparr>db_sales := db_sales s @ [sale]\<rparr>)"

text \<open>
  \<^verbatim>\<open>runTransaction(db, async (tx) => { ... })\<close> seen by one client with no concurrent
  writer: the function reads the store; if it throws nothing is written, otherwise all
  its writes are applied. (The retry after a conflict with another client is Firestore's
  and is not modelled.)
\<close>

definition runTransaction ::
  "Store \<Rightarrow> ((string \<rightharpoonup> Product) \<Rightarrow> error + txWrite list) \<Rightarrow> Store \<times> (error + unit)" where
  "runTransaction s body =
     (case body (db_products s) of
        Inl e \<Rightarrow> (s, Inl e)
      | Inr ws \<Rightarrow> (foldl applyWrite s ws, Inr ()))"

text \<open>
  \<^verbatim>\<open>const indexed = cart.map((it) => ({ item: it,
      ref: it.code !== "PAN" ? doc(db, "products", it.code) : null }));
  const snaps = await Promise.all(indexed.map(({ ref }) =>
      (ref ? tx.get(ref) : Promise.resolve(null))));\<close>
  A snapshot is \<open>None\<close> for \<open>null\<close> (nothing read), \<open>Some None\<close> for a document that does not
  exist and \<open>Some (Some p)\<close> for product data.
\<close>

definition snapOf :: "(string \<rightharpoonup> Product) \<Rightarrow> SaleItem \<Rightarrow> Product option option" where
  "snapOf db it = (if code it \<noteq> ''PAN'' then Some (db (code it)) else None)"

definition readSnaps :: "(string \<rightharpoonup> Product) \<Rightarrow> SaleItem list \<Rightarrow> Product option option list" where
  "readSnaps db crt = map (snapOf db) crt"

text \<open>
  The function mapped over \<open>indexed\<close> to build \<open>itemsForSale\<close>:
  \<^verbatim>\<open>if (item.code === "PAN") return { ...item, costAtSale: 0 };
  const snap = snaps[i]!;
  if (!snap?.exists()) throw new Error(`Producto no encontrado: ${item.code}`);
  const p = snap.data() as Product;
  if ((p.stock || 0) < item.qty) throw new Error(`Stock insuficiente de ${p.name}`);
  return { ...item, costAtSale: Number(p.cost || 0) };\<close>
\<close>

definition saleItemOf :: "SaleItem \<Rightarrow> Product option option \<Rightarrow> error + SaleItem" where
  "saleItemOf item snap =
     (if code item = ''PAN'' then Inr (item\<lparr>costAtSale := Some 0\<rparr>)
      else case snap of
             Some (Some p) \<Rightarrow>
               if orZero (Some (stock p)) < qty item then Inl (InsufficientStock (pname p))
               else Inr (item\<lparr>costAtSale := Some (orZero (Some (cost p)))\<rparr>)
           | _ \<Rightarrow> Inl (ProductNotFound (code item)))"

text \<open>\<open>indexed.map\<close> with a function that may throw: the first throw ends the map.\<close>

fun itemsForSale :: "(SaleItem \<times> Product option option) list \<Rightarrow> error + SaleItem list" where
  "itemsForSale [] = Inr []"
| "itemsForSale ((item, snap) # rest) =
     (case saleItemOf item snap of
        Inl e \<Rightarrow> Inl e
      | Inr it \<Rightarrow> (case itemsForSale rest of Inl e \<Rightarrow> Inl e | Inr its \<Rightarrow> Inr (it # its)))"

text \<open>
  \<^verbatim>\<open>indexed.forEach(({ item }, i) => {
    if (item.code !== "PAN") {
      const snap = snaps[i]!; const p = snap!.data() as Product;
      tx.update(indexed[i].ref!, { stock: (p.stock || 0) - item.qty }); } });\<close>
  This runs after \<open>itemsForSale\<close> was built, so every snapshot of a line other than PAN
  exists.
\<close>

definition stockWrites :: "(SaleItem \<times> Product option option) list \<Rightarrow> txWrite list" where
  "stockWrites indexed =
     concat (map (\<lambda>(item, snap).
       if code item \<noteq> ''PAN''
       then (case snap of
               Some (Some p) \<Rightarrow> [Update (code item) (orZero (Some (stock p)) - qty item)]
             | _ \<Rightarrow> [])
       else []) indexed)"

text \<open>
  \<^verbatim>\<open>tx.set(saleRef, { at: serverTimestamp(), localDate: todayLocalDateAR(), user: userEmail,
    items: itemsForSale.map(i => ({ code: i.code, name: i.name, qty: i.qty, price: i.price,
                                    costAtSale: i.costAtSale ?? 0 })),
    total });\<close> with \<^verbatim>\<open>userEmail = auth.currentUser?.email ?? "desconocido"\<close>.
\<close>

definition userEmail :: "Env \<Rightarrow> string" where
  "userEmail env = (case currentUserEmail env of None \<Rightarrow> ''desconocido'' | Some e \<Rightarrow> e)"

definition saleDoc :: "Env \<Rightarrow> rat \<Rightarrow> SaleItem list \<Rightarrow> Sale" where
  "saleDoc env tot its =
     \<lparr>sid = newDocId env, sale_at = serverTimestamp env,
      items = map (\<lambda>i. \<lparr>code = code i, name = name i, qty = qty i, price = price i,
                         costAtSale = Some (case costAtSale i of None \<Rightarrow> 0 | Some c \<Rightarrow> c)\<rparr>) its,
      total = tot, user = Some (userEmail env), localDate = Some (todayLocalDateAR env)\<rparr>"

definition txBody :: "Env \<Rightarrow> rat \<Rightarrow> SaleItem list \<Rightarrow> (string \<rightharpoonup> Product) \<Rightarrow> error + txWrite list" where
  "txBody env tot crt db =
     (let indexed = zip crt (readSnaps db crt)
      in case itemsForSale indexed of
           Inl e \<Rightarrow> Inl e
         | Inr its \<Rightarrow> Inr (stockWrites indexed @ [SetSale (saleDoc env tot its)]))"

text \<open>
  The sale handed to \<open>onSaleRecorded\<close> after the transaction:
  \<^verbatim>\<open>{ id: crypto.randomUUID(), at: new Date().toISOString(),
    items: cart.map(i => ({ ...i, costAtSale: i.code === "PAN" ? 0 : i.costAtSale })),
    total, user: auth.currentUser?.email ?? "desconocido", localDate: todayLocalDateAR() }\<close>
\<close>

definition localSale :: "Env \<Rightarrow> rat \<Rightarrow> SaleItem list \<Rightarrow> Sale" where
  "localSale env tot crt =
     \<lparr>sid = randomUUID env, sale_at = nowISO env,
      items = map (\<lambda>i. i\<lparr>costAtSale := (if code i = ''PAN'' then Some 0 else costAtSale i)\<rparr>) crt,
      total = tot, user = Some (userEmail env), localDate = Some (todayLocalDateAR env)\<rparr>"

text \<open>
  \<^verbatim>\<open>const cobrar = async () => {
    if (cart.length === 0) { toast.error("No hay productos"); return; }
    try {
      await runTransaction(db, async (tx) => { ... });
      const sale: Sale = { ... };
      toast.success("Venta registrada"); onSaleRecorded(sale);
      setCart([]); setUndoStack([]); inputRef.current?.focus();
    } catch (err) { toast.error(err?.message || "No se pudo registrar la venta"); } };\<close>
  The result is the store, the state of the tab, and the error shown or the sale recorded.
\<close>

definition cobrar :: "Env \<Rightarrow> Store \<Rightarrow> POS \<Rightarrow> Store \<times> POS \<times> (error + Sale)" where
  "cobrar env s st =
     (if length (cart st) = 0 then (s, st, Inl EmptyCart)
      else case runTransaction s (txBody env (cartTotal (cart st)) (cart st)) of
             (s', Inl e) \<Rightarrow> (s', st, Inl e)
           | (s', Inr u) \<Rightarrow>
               (s', st\<lparr>cart := [], undoStack := []\<rparr>,
                Inr (localSale env (cartTotal (cart st)) (cart st))))"

section \<open>States the tab can be in\<close>




section \<open>Daily balance (\<open>BalanceTab\<close>)\<close>












section \<open>Invariants of the reachable states\<close>




section \<open>Words of the checkout claims\<close>

text \<open>
  A line fails the validation inside the transaction when it is not a PAN line and its
  product is missing from the store or has less stock than the line asks for; the error
  thrown for it names the code of the missing product or the name of the short one.
\<close>

definition invalidLine :: "(string \<rightharpoonup> Product) \<Rightarrow> SaleItem \<Rightarrow> bool" where
  "invalidLine db i =
     (code i \<noteq> ''PAN'' \<and> (case db (code i) of None \<Rightarrow> True | Some p \<Rightarrow> stock p < qty i))"

definition lineError :: "(string \<rightharpoonup> Product) \<Rightarrow> SaleItem \<Rightarrow> error" where
  "lineError db i =
     (case db (code i) of None \<Rightarrow> ProductNotFound (code i) | Some p \<Rightarrow> InsufficientStock (pname p))"

text \<open>The cost a valid line is stamped with: 0 on a PAN line, the stored product's cost otherwise.\<close>

definition stampCost :: "(string \<rightharpoonup> Product) \<Rightarrow> SaleItem \<Rightarrow> rat" where
  "stampCost db i =
     (if code i = ''PAN'' then 0 else (case db (code i) of None \<Rightarrow> 0 | Some p \<Rightarrow> cost p))"

section \<open>Words of the balance claim\<close>







section \<open>Test data\<close>

text \<open>The empty tab, and the products, lines and undo entries of the scenarios checked below.\<close>

definition initPOS :: POS where "initPOS = \<lparr>cart = [], undoStack = []\<rparr>"

definition factura :: Product where
  "factura = \<lparr>pcode = ''001'', pname = ''Factura'', cost = 100, margin = 50, stock = 10, lowThreshold = None\<rparr>"




definition facturaLine :: "rat \<Rightarrow> SaleItem" where
  "facturaLine q = \<lparr>code = ''001'', name = ''Factura'', qty = q, price = 150, costAtSale = None\<rparr>"

definition addEntry :: "string \<Rightarrow> rat \<Rightarrow> UndoEntry" where
  "addEntry c q = \<lparr>utype = ''add'', ucode = c, uqty = q\<rparr>"



definition envA :: Env where
  "envA = \<lparr>newDocId = ''sale-1'', serverTimestamp = ''2024-05-01T12:00:00Z'', randomUUID = ''uuid-1'',
           nowISO = ''2024-05-01T12:00:01Z'', todayLocalDateAR = ''2024-05-01'',
           currentUserEmail = Some ''clau@pana.com''\<rparr>"

definition storeOf :: "Product \<Rightarrow> Store" where
  "storeOf p = \<lparr>db_products = [pcode p \<mapsto> p], db_sales = []\<rparr>"

section \<open>Basic facts\<close>






lemma find_findIndex: "find P xs = map_option (\<lambda>i. xs ! i) (findIndex P xs)"
  by (induction xs) (auto simp: option.map_comp comp_def)



lemma orZero_Some [simp]: "orZero (Some x) = x"
  by (simp add: orZero_def)

section \<open>The invariants hold in every reachable state\<close>



























section \<open>Claims about the cart\<close>




text \<open>
  Claim C10. \<open>removeItem code\<close> removes every line of the cart that carries the code and
  leaves the lines with other codes, and the undo stack, as they are. Two additions from the
  bread dialog make two separate lines with the code PAN, and removing PAN removes both.
\<close>

theorem removeItem_all:
  "filter (\<lambda>i. code i = c) (cart (removeItem c st)) = []
   \<and> filter (\<lambda>i. code i \<noteq> c) (cart (removeItem c st)) = filter (\<lambda>i. code i \<noteq> c) (cart st)
   \<and> cart (removeItem c st) = filter (\<lambda>i. code i \<noteq> c) (cart st)
   \<and> undoStack (removeItem c st) = undoStack st
   \<and> length (filter (\<lambda>i. code i = ''PAN'') (cart (onAdd pr2 (onAdd pr1 st))))
        = 2 + length (filter (\<lambda>i. code i = ''PAN'') (cart st))
   \<and> cart (removeItem ''PAN'' (onAdd pr2 (onAdd pr1 st))) = filter (\<lambda>i. code i \<noteq> ''PAN'') (cart st)"
  by (simp add: removeItem_def onAdd_def filter_empty_conv)


text \<open>
  \<open>changeQty\<close> itself returns at once for a code the catalogue snapshot does not hold, so it
  would leave a PAN line as it is; quantities are edited through the handler of the row.
\<close>

lemma changeQty_unknown: "productsMap products c = None \<Longrightarrow> changeQty products c w st = (st, None)"
  by (simp add: changeQty_def)





section \<open>Facts about the checkout\<close>

lemma indexed_eq: "zip crt (readSnaps db crt) = map (\<lambda>it. (it, snapOf db it)) crt"
  by (induction crt) (simp_all add: readSnaps_def)

lemma saleItemOf_invalid:
  "invalidLine db i \<Longrightarrow> saleItemOf i (snapOf db i) = Inl (lineError db i)"
  by (auto simp: invalidLine_def saleItemOf_def snapOf_def lineError_def split: option.splits)

lemma saleItemOf_valid:
  "\<not> invalidLine db i \<Longrightarrow> saleItemOf i (snapOf db i) = Inr (i\<lparr>costAtSale := Some (stampCost db i)\<rparr>)"
  by (auto simp: invalidLine_def saleItemOf_def snapOf_def stampCost_def split: option.splits)

lemma itemsForSale_invalid:
  "find (invalidLine db) crt = Some i
   \<Longrightarrow> itemsForSale (map (\<lambda>it. (it, snapOf db it)) crt) = Inl (lineError db i)"
proof (induction crt)
  case Nil
  then show ?case by simp
next
  case (Cons x xs)
  then show ?case
    by (cases "invalidLine db x") (simp_all add: saleItemOf_invalid saleItemOf_valid)
qed

lemma itemsForSale_valid:
  "find (invalidLine db) crt = None
   \<Longrightarrow> itemsForSale (map (\<lambda>it. (it, snapOf db it)) crt)
       = Inr (map (\<lambda>i. i\<lparr>costAtSale := Some (stampCost db i)\<rparr>) crt)"
proof (induction crt)
  case Nil
  then show ?case by simp
next
  case (Cons x xs)
  then show ?case
    by (cases "invalidLine db x") (simp_all add: saleItemOf_valid)
qed

lemma txBody_invalid:
  "find (invalidLine db) crt = Some i \<Longrightarrow> txBody env tot crt db = Inl (lineError db i)"
  by (simp add: txBody_def indexed_eq itemsForSale_invalid)

lemma txBody_valid:
  "find (invalidLine db) crt = None
   \<Longrightarrow> txBody env tot crt db
       = Inr (stockWrites (map (\<lambda>it. (it, snapOf db it)) crt)
              @ [SetSale (saleDoc env tot (map (\<lambda>i. i\<lparr>costAtSale := Some (stampCost db i)\<rparr>) crt))])"
  by (simp add: txBody_def indexed_eq itemsForSale_valid)

lemma cobrar_empty: "cart st = [] \<Longrightarrow> cobrar env s st = (s, st, Inl EmptyCart)"
  by (simp add: cobrar_def)

lemma cobrar_invalid:
  "cart st \<noteq> [] \<Longrightarrow> find (invalidLine (db_products s)) (cart st) = Some i
   \<Longrightarrow> cobrar env s st = (s, st, Inl (lineError (db_products s) i))"
  by (simp add: cobrar_def runTransaction_def txBody_invalid)

lemma cobrar_valid:
  "cart st \<noteq> [] \<Longrightarrow> find (invalidLine (db_products s)) (cart st) = None
   \<Longrightarrow> cobrar env s st
       = (foldl applyWrite s
            (stockWrites (map (\<lambda>it. (it, snapOf (db_products s) it)) (cart st))
             @ [SetSale (saleDoc env (cartTotal (cart st))
                  (map (\<lambda>i. i\<lparr>costAtSale := Some (stampCost (db_products s) i)\<rparr>) (cart st)))]),
          st\<lparr>cart := [], undoStack := []\<rparr>,
          Inr (localSale env (cartTotal (cart st)) (cart st)))"
  by (simp add: cobrar_def runTransaction_def txBody_valid)














lemma find_invalid_three:
  "find (invalidLine (db_products (storeOf factura))) [facturaLine 3] = None"
  by (simp add: invalidLine_def storeOf_def factura_def facturaLine_def)

lemma find_invalid_stale:
  "find (invalidLine (db_products (storeOf (factura\<lparr>stock := 1\<rparr>)))) [facturaLine 3] = Some (facturaLine 3)"
  by (simp add: invalidLine_def storeOf_def factura_def facturaLine_def)

section \<open>Claims about the checkout\<close>



text \<open>
  The hypothesis on the state is needed: the stock updates are computed from the products
  read at the start, so in a cart with two lines of one code (which no handler builds) the
  later update would replace the earlier one.
\<close>

lemma cobrar_same_code_twice:
  "map_option stock (db_products (fst (cobrar envA (storeOf factura)
      \<lparr>cart = [facturaLine 2, facturaLine 3], undoStack = []\<rparr>)) ''001'') = Some 7"
  by code_simp



text \<open>
  Claim C3. \<open>cobrar\<close> on a cart with no lines fails with \<open>EmptyCart\<close>. Every failure is
  \<open>EmptyCart\<close>, \<open>ProductNotFound\<close> or \<open>InsufficientStock\<close>, and leaves the cart and the undo
  stack (and the store) as they were; only a success, which needs a non-empty cart, clears
  the cart and the undo stack.
\<close>

theorem cobrar_outcomes:
  "(cart st = [] \<longrightarrow> cobrar env s st = (s, st, Inl EmptyCart))
   \<and> (\<forall>e. snd (snd (cobrar env s st)) = Inl e \<longrightarrow>
         fst (snd (cobrar env s st)) = st \<and> fst (cobrar env s st) = s
         \<and> (e = EmptyCart \<or> (\<exists>c. e = ProductNotFound c) \<or> (\<exists>n. e = InsufficientStock n)))
   \<and> (\<forall>sale. snd (snd (cobrar env s st)) = Inr sale \<longrightarrow>
         cart st \<noteq> [] \<and> fst (snd (cobrar env s st)) = st\<lparr>cart := [], undoStack := []\<rparr>)"
proof (cases "cart st = []")
  case True
  then show ?thesis by (simp add: cobrar_empty)
next
  case False
  show ?thesis
  proof (cases "find (invalidLine (db_products s)) (cart st)")
    case None
    with False show ?thesis by (simp add: cobrar_valid)
  next
    case (Some i)
    with False show ?thesis
      by (cases "db_products s (code i)") (simp_all add: cobrar_invalid lineError_def)
  qed
qed

text \<open>An empty cart, a cart the store cannot serve, and a cart it can.\<close>

theorem cobrar_outcomes_witness:
  "cobrar envA (storeOf factura) initPOS = (storeOf factura, initPOS, Inl EmptyCart)
   \<and> fst (snd (cobrar envA (storeOf (factura\<lparr>stock := 1\<rparr>))
        \<lparr>cart = [facturaLine 3], undoStack = [addEntry ''001'' 3]\<rparr>))
       = \<lparr>cart = [facturaLine 3], undoStack = [addEntry ''001'' 3]\<rparr>
   \<and> fst (snd (cobrar envA (storeOf factura) \<lparr>cart = [facturaLine 3], undoStack = [addEntry ''001'' 3]\<rparr>))
       = \<lparr>cart = [], undoStack = []\<rparr>"
proof -
  let ?st = "\<lparr>cart = [facturaLine 3], undoStack = [addEntry ''001'' 3]\<rparr>"
  have e: "cart initPOS = []" by (simp add: initPOS_def)
  have f: "snd (snd (cobrar envA (storeOf (factura\<lparr>stock := 1\<rparr>)) ?st)) = Inl (InsufficientStock ''Factura'')"
    using find_invalid_stale
    by (simp add: cobrar_invalid lineError_def storeOf_def factura_def facturaLine_def)
  have g: "snd (snd (cobrar envA (storeOf factura) ?st)) = Inr (localSale envA (cartTotal (cart ?st)) (cart ?st))"
    using find_invalid_three by (simp add: cobrar_valid)
  from cobrar_outcomes [of initPOS envA "storeOf factura"] e
  have 1: "cobrar envA (storeOf factura) initPOS = (storeOf factura, initPOS, Inl EmptyCart)"
    by simp
  from cobrar_outcomes [of ?st envA "storeOf (factura\<lparr>stock := 1\<rparr>)"] f
  have 2: "fst (snd (cobrar envA (storeOf (factura\<lparr>stock := 1\<rparr>)) ?st)) = ?st"
    by simp
  from cobrar_outcomes [of ?st envA "storeOf factura"] g
  have 3: "fst (snd (cobrar envA (storeOf factura) ?st)) = \<lparr>cart = [], undoStack = []\<rparr>"
    by simp
  from 1 2 3 show ?thesis by blast
qed



section \<open>Facts about the bread lines\<close>









lemma Math_round_800: "Math_round 800 = 800"
  by code_simp



section \<open>Claims about the bread lines\<close>




section \<open>Facts about the daily balance\<close>























section \<open>Claim about the daily balance\<close>




end
